theory Spec2Isabelle
  imports Complex_Main
begin

section \<open>The sample list of the results viewer (SampleList.mjs)\<close>

text \<open>
  A shallow embedding of \<^verbatim>\<open>src/inspect_ai/_view/www/src/samples/SampleList.mjs\<close>:
  the layout computation (\<^verbatim>\<open>gridColumns\<close>, \<^verbatim>\<open>gridColumnStyles\<close>), the row mapping
  and the scroll effect, the row renderer, the key handler, the counters and the banner,
  and the two components \<^verbatim>\<open>SampleList\<close> and \<^verbatim>\<open>SampleRow\<close>.
  Markup is kept as data: every element the component returns is a constructor that
  carries the attributes and children the source gives it. Constant styling (padding,
  fonts, borders) is left out; what the element shows and where is kept.
\<close>

subsection \<open>JavaScript numbers\<close>

text \<open>
  The numbers of the layout computation are the finite numbers of a descriptor and the
  value \<^verbatim>\<open>NaN\<close>, which \<^verbatim>\<open>ToNumber(undefined)\<close> produces when the descriptor is
  absent. \<^verbatim>\<open>Math.max\<close>, \<^verbatim>\<open>Math.min\<close> and the comparison \<^verbatim>\<open>a > b\<close> are exact on doubles, so finite
  numbers are rationals here. A comparison with \<^verbatim>\<open>NaN\<close> is false; \<^verbatim>\<open>Math.max\<close> and
  \<^verbatim>\<open>Math.min\<close> return \<^verbatim>\<open>NaN\<close> as soon as one argument is \<^verbatim>\<open>NaN\<close>.
\<close>

datatype jsnum = Num rat | NaN

fun js_gt :: "jsnum \<Rightarrow> jsnum \<Rightarrow> bool" where
  "js_gt (Num a) (Num b) = (b < a)"
| "js_gt _ _ = False"

fun Math_max :: "jsnum \<Rightarrow> jsnum \<Rightarrow> jsnum" where
  "Math_max (Num a) (Num b) = Num (max a b)"
| "Math_max _ _ = NaN"

fun Math_min :: "jsnum \<Rightarrow> jsnum \<Rightarrow> jsnum" where
  "Math_min (Num a) (Num b) = Num (min a b)"
| "Math_min _ _ = NaN"

subsection \<open>Sample summaries and list items\<close>

text \<open>
  A sample summary, as far as this file reads it. The input and the target are only
  handed to the formatters of \<^verbatim>\<open>utils/Format.mjs\<close>, so their types are parameters.
  \<^verbatim>\<open>error\<close> and \<^verbatim>\<open>limit\<close> are optional strings (\<open>None\<close> is \<^verbatim>\<open>undefined\<close>).
\<close>

datatype sample_id = IdNumber int | IdString string

record ('i, 't) sample_summary =
  sample_id :: sample_id
  sample_input :: 'i
  sample_target :: 't
  sample_error :: "string option"
  sample_limit :: "string option"

text \<open>Truthiness of an optional string: \<^verbatim>\<open>undefined\<close> and \<^verbatim>\<open>""\<close> are falsy.\<close>

fun truthy :: "string option \<Rightarrow> bool" where
  "truthy None = False"
| "truthy (Some s) = (s \<noteq> [])"

text \<open>
  The \<^verbatim>\<open>data\<close> of a list item is a sample summary or, for a separator, the group
  title (a string). Reading \<^verbatim>\<open>.error\<close> or \<^verbatim>\<open>.limit\<close> of a string gives
  \<^verbatim>\<open>undefined\<close>.
\<close>

datatype ('i, 't) item_data = Summary "('i, 't) sample_summary" | Title string

fun data_error :: "('i, 't) item_data \<Rightarrow> string option" where
  "data_error (Summary s) = sample_error s"
| "data_error (Title _) = None"

fun data_limit :: "('i, 't) item_data \<Rightarrow> string option" where
  "data_limit (Summary s) = sample_limit s"
| "data_limit (Title _) = None"

record ('i, 't) list_item =
  item_type :: string
  item_number :: nat
  item_index :: int
  item_data :: "('i, 't) item_data"

subsection \<open>The descriptor and the column layout\<close>

record shape_sizes =
  s_id :: rat
  s_input :: rat
  s_target :: rat
  s_answer :: rat
  s_limit :: rat
  s_score :: rat

record message_shape =
  raw :: shape_sizes
  normalized :: shape_sizes

text \<open>
  The descriptor: its message shape and the two methods the rows call,
  \<^verbatim>\<open>selectedScore(sample).render()\<close> and
  \<^verbatim>\<open>selectedScorerDescriptor(sample).answer()\<close>, whose results are kept as markup text.
\<close>

record ('i, 't) samples_descriptor =
  messageShape :: message_shape
  selectedScore_render :: "('i, 't) sample_summary \<Rightarrow> string"
  selectedScorerDescriptor_answer :: "('i, 't) sample_summary \<Rightarrow> string"

text \<open>
  \<^verbatim>\<open>sampleDescriptor?.messageShape.<path>\<close> read as a number: the field of a present
  descriptor, \<^verbatim>\<open>NaN\<close> (from \<^verbatim>\<open>undefined\<close>) of an absent one.
\<close>

definition shape_num ::
  "('i, 't) samples_descriptor option \<Rightarrow> (message_shape \<Rightarrow> rat) \<Rightarrow> jsnum" where
  "shape_num sampleDescriptor path =
     (case sampleDescriptor of None \<Rightarrow> NaN | Some d \<Rightarrow> Num (path (messageShape d)))"

text \<open>
  A track size of the grid template: the string \<^verbatim>\<open>"0"\<close>, or a number followed by
  \<^verbatim>\<open>fr\<close> or \<^verbatim>\<open>rem\<close>. A string that ends in a unit is never \<^verbatim>\<open>"0"\<close>.
\<close>

datatype css_size = Zero | Fr jsnum | Rem jsnum

definition frSize :: "jsnum \<Rightarrow> css_size" where
  "frSize val = (if val = Num 0 then Zero else Fr val)"

record grid_columns =
  col_input :: css_size
  col_target :: css_size
  col_answer :: css_size
  col_limit :: css_size
  col_id :: css_size
  col_score :: css_size

definition gridColumns :: "('i, 't) samples_descriptor option \<Rightarrow> grid_columns" where
  "gridColumns sampleDescriptor =
     (let input =
            (if js_gt (shape_num sampleDescriptor (\<lambda>m. s_input (normalized m))) (Num 0)
             then Math_max (Num (15 / 100)) (shape_num sampleDescriptor (\<lambda>m. s_input (normalized m)))
             else Num 0);
          target =
            (if js_gt (shape_num sampleDescriptor (\<lambda>m. s_target (normalized m))) (Num 0)
             then Math_max (Num (15 / 100)) (shape_num sampleDescriptor (\<lambda>m. s_target (normalized m)))
             else Num 0);
          answer =
            (if js_gt (shape_num sampleDescriptor (\<lambda>m. s_answer (normalized m))) (Num 0)
             then Math_max (Num (15 / 100)) (shape_num sampleDescriptor (\<lambda>m. s_answer (normalized m)))
             else Num 0);
          limit =
            (if js_gt (shape_num sampleDescriptor (\<lambda>m. s_limit (normalized m))) (Num 0)
             then Math_max (Num (15 / 100)) (shape_num sampleDescriptor (\<lambda>m. s_limit (normalized m)))
             else Num 0);
          id = Math_max (Num 2) (Math_min (Num 10) (shape_num sampleDescriptor (\<lambda>m. s_id (raw m))));
          score = Math_max (Num 3) (Math_min (Num 10) (shape_num sampleDescriptor (\<lambda>m. s_score (raw m))))
      in \<lparr> col_input = frSize input,
           col_target = frSize target,
           col_answer = frSize answer,
           col_limit = frSize limit,
           col_id = Rem id,
           col_score = Rem score \<rparr>)"

text \<open>
  The template \<^verbatim>\<open>`${id} ${input} ${target} ${answer} ${limit} ${score}`\<close> is kept as
  the list of its six track sizes.
\<close>

record grid_styles =
  gridGap :: string
  gridTemplateColumns :: "css_size list"
  paddingLeft :: string
  paddingRight :: string

definition gridColumnStyles :: "('i, 't) samples_descriptor option \<Rightarrow> grid_styles" where
  "gridColumnStyles sampleDescriptor =
     (let g = gridColumns sampleDescriptor
      in \<lparr> gridGap = ''10px'',
           gridTemplateColumns =
             [col_id g, col_input g, col_target g, col_answer g, col_limit g, col_score g],
           paddingLeft = ''1rem'',
           paddingRight = ''1rem'' \<rparr>)"

text \<open>
  The descriptor is an object of the parent, and a function that receives it could write
  to it. The two layout functions in state-passing form: a call gives its result and the
  descriptor as the call leaves it. Neither \<^verbatim>\<open>gridColumns\<close> nor
  \<^verbatim>\<open>gridColumnStyles\<close> has an assignment to the descriptor or to an object reached
  from it, and they call nothing but \<^verbatim>\<open>Math.max\<close>, \<^verbatim>\<open>Math.min\<close> and
  \<^verbatim>\<open>frSize\<close>.
\<close>

definition gridColumns_run ::
  "('i, 't) samples_descriptor option \<Rightarrow> grid_columns \<times> ('i, 't) samples_descriptor option" where
  "gridColumns_run sampleDescriptor = (gridColumns sampleDescriptor, sampleDescriptor)"

definition gridColumnStyles_run ::
  "('i, 't) samples_descriptor option \<Rightarrow> grid_styles \<times> ('i, 't) samples_descriptor option" where
  "gridColumnStyles_run sampleDescriptor =
     (let r = gridColumns_run sampleDescriptor;
          g = fst r
      in (\<lparr> gridGap = ''10px'',
            gridTemplateColumns =
              [col_id g, col_input g, col_target g, col_answer g, col_limit g, col_score g],
            paddingLeft = ''1rem'',
            paddingRight = ''1rem'' \<rparr>,
          snd r))"

subsection \<open>Printing a count\<close>

text \<open>The decimal digits of a non-negative integer, as a template literal prints it.\<close>

definition digit_char :: "nat \<Rightarrow> char" where
  "digit_char d = ''0123456789'' ! d"

fun show_nat :: "nat \<Rightarrow> string" where
  "show_nat n = (if n < 10 then [digit_char n] else show_nat (n div 10) @ [digit_char (n mod 10)])"

declare show_nat.simps [simp del]

text \<open>\<^verbatim>\<open>Array.prototype.join\<close> on an array of strings.\<close>

fun join :: "string \<Rightarrow> string list \<Rightarrow> string" where
  "join sep [] = []"
| "join sep [x] = x"
| "join sep (x # y # ys) = x @ sep @ join sep (y # ys)"

subsection \<open>Props, callbacks and hook state\<close>

text \<open>
  The callbacks of the props are functions of the parent. A function object is kept as
  its identity, since the parent may pass another function under the same prop at a
  later render; a call is recorded as an effect that carries the identity of the function
  called and the arguments.
\<close>

type_synonym fn_ref = nat

datatype effect = Call fn_ref "int list" | PreventDefault | StopPropagation

record score_label =
  label_name :: string
  label_scorer :: string

text \<open>
  \<open>listRef\<close> is the identity of the ref object the parent passes; whether its
  \<^verbatim>\<open>current\<close> holds the list element is part of the environment of an effect.
\<close>

record ('i, 't) props =
  listRef :: nat
  items :: "('i, 't) list_item list"
  sampleDescriptor :: "('i, 't) samples_descriptor option"
  style :: "string \<rightharpoonup> string"
  selectedIndex :: int
  setSelectedIndex :: fn_ref
  selectedScore :: score_label
  nextSample :: fn_ref
  prevSample :: fn_ref
  showSample :: fn_ref

subsection \<open>The row mapping and the scroll effect\<close>

text \<open>
  \<^verbatim>\<open>items.forEach((item, index) => { if (item.type === "sample") rowIndexes.push(index) })\<close>:
  the loop over the items with the running index and the array built so far.
\<close>

fun forEach_push :: "('i, 't) list_item list \<Rightarrow> nat \<Rightarrow> nat list \<Rightarrow> nat list" where
  "forEach_push [] index rowIndexes = rowIndexes"
| "forEach_push (item # rest) index rowIndexes =
     forEach_push rest (index + 1)
       (if item_type item = ''sample'' then rowIndexes @ [index] else rowIndexes)"

definition itemRowMapping :: "('i, 't) list_item list \<Rightarrow> nat list" where
  "itemRowMapping its = forEach_push its 0 []"

text \<open>
  The values \<^verbatim>\<open>prevSelectedIndexRef.current\<close> and \<^verbatim>\<open>actualRowIndex\<close> take:
  \<^verbatim>\<open>null\<close> (the initial ref), \<^verbatim>\<open>undefined\<close> (a read outside the array) or a row index.
\<close>

datatype row_ref = RNull | RUndefined | RIndex nat

text \<open>Reading \<^verbatim>\<open>array[i]\<close>: outside \<open>0 \<le> i < length\<close> the result is \<^verbatim>\<open>undefined\<close>.\<close>

definition array_get :: "nat list \<Rightarrow> int \<Rightarrow> row_ref" where
  "array_get xs i = (if 0 \<le> i \<and> nat i < length xs then RIndex (xs ! nat i) else RUndefined)"

text \<open>
  \<^verbatim>\<open>a > b\<close> on these values: \<^verbatim>\<open>null\<close> counts as 0, and a comparison with
  \<^verbatim>\<open>undefined\<close> (\<^verbatim>\<open>NaN\<close>) is false.
\<close>

fun ref_gt :: "row_ref \<Rightarrow> row_ref \<Rightarrow> bool" where
  "ref_gt (RIndex a) (RIndex b) = (b < a)"
| "ref_gt (RIndex a) RNull = (0 < a)"
| "ref_gt RNull (RIndex b) = False"
| "ref_gt RNull RNull = False"
| "ref_gt RUndefined _ = False"
| "ref_gt _ RUndefined = False"

datatype scroll_call = ScrollToIndex row_ref string

text \<open>
  The body of the scroll effect. \<open>listEl\<close> tells whether \<^verbatim>\<open>listRef.current\<close> holds
  the list element. The result is the call made on it, if any, and the new value of
  \<^verbatim>\<open>prevSelectedIndexRef.current\<close>.
\<close>

definition scroll_effect :: "bool \<Rightarrow> nat list \<Rightarrow> int \<Rightarrow> row_ref \<Rightarrow> scroll_call option \<times> row_ref" where
  "scroll_effect listEl rowIndexes selIndex prev =
     (if listEl then
        (let actualRowIndex = array_get rowIndexes selIndex;
             direction = (if ref_gt actualRowIndex prev then ''down'' else ''up'')
         in (Some (ScrollToIndex actualRowIndex direction), actualRowIndex))
      else (None, prev))"

text \<open>
  The state the hooks keep between renders: the \<^verbatim>\<open>hidden\<close> flag, the ref of the
  last scroll position, the dependencies the two effects last ran with and the memoised
  key handler. The identity of the items array is a token (\<open>items_id\<close>) the environment
  supplies, since a dependency is compared by identity; the memoised row mapping changes
  identity exactly when the items do.
\<close>

record key_result =
  effects :: "effect list"
  returned :: "bool option"

record memo =
  memo_fn :: "string \<Rightarrow> key_result"
  memo_deps :: "int list"

record hook_state =
  hidden :: bool
  hidden_deps :: "nat option"
  prevSelectedIndexRef :: row_ref
  scroll_deps :: "(int \<times> nat \<times> nat) option"
  onkeydown_cell :: "memo option"

definition initial_hooks :: hook_state where
  "initial_hooks =
     \<lparr> hidden = False, hidden_deps = None, prevSelectedIndexRef = RNull,
       scroll_deps = None, onkeydown_cell = None \<rparr>"

text \<open>An effect runs after the first render and after a render that changed a dependency.\<close>

definition deps_changed :: "'d option \<Rightarrow> 'd \<Rightarrow> bool" where
  "deps_changed old new = (case old of None \<Rightarrow> True | Some d \<Rightarrow> d \<noteq> new)"

text \<open>
  The effects of one render of \<^verbatim>\<open>SampleList\<close>, in the order they are declared. With
  no items the component returns before it declares any hook.
\<close>

definition run_effects ::
  "bool \<Rightarrow> nat \<Rightarrow> ('i, 't) props \<Rightarrow> hook_state \<Rightarrow> scroll_call option \<times> hook_state" where
  "run_effects listEl items_id p st =
     (if items p = [] then (None, st)
      else
        (let st1 = (if deps_changed (hidden_deps st) items_id
                    then st\<lparr>hidden := False, hidden_deps := Some items_id\<rparr> else st)
         in if deps_changed (scroll_deps st1) (selectedIndex p, listRef p, items_id)
            then
              (let r = scroll_effect listEl (itemRowMapping (items p)) (selectedIndex p)
                         (prevSelectedIndexRef st1)
               in (fst r,
                   st1\<lparr>prevSelectedIndexRef := snd r,
                       scroll_deps := Some (selectedIndex p, listRef p, items_id)\<rparr>))
            else (None, st1)))"

subsection \<open>The key handler\<close>

text \<open>
  The closure \<^verbatim>\<open>(e) => { switch (e.key) ... }\<close> of one render. It captures the
  \<^verbatim>\<open>prevSample\<close>, \<^verbatim>\<open>nextSample\<close> and \<^verbatim>\<open>showSample\<close> functions and the selected
  index of that render, which are its first four arguments here.
\<close>

definition onkeydown :: "fn_ref \<Rightarrow> fn_ref \<Rightarrow> fn_ref \<Rightarrow> int \<Rightarrow> string \<Rightarrow> key_result" where
  "onkeydown prevSample_fn nextSample_fn showSample_fn selIndex key =
     (if key = ''ArrowUp'' then
        \<lparr> effects = [Call prevSample_fn [], PreventDefault, StopPropagation],
          returned = Some False \<rparr>
      else if key = ''ArrowDown'' then
        \<lparr> effects = [Call nextSample_fn [], PreventDefault, StopPropagation],
          returned = Some False \<rparr>
      else if key = ''Enter'' then
        \<lparr> effects = [Call showSample_fn [selIndex], PreventDefault, StopPropagation],
          returned = Some False \<rparr>
      else \<lparr> effects = [], returned = None \<rparr>)"

text \<open>
  \<^verbatim>\<open>useCallback(fn, deps)\<close>: the stored function is kept while the dependencies are
  the same, and replaced by the new closure otherwise. The dependency list of the key
  handler is \<^verbatim>\<open>[selectedIndex]\<close>.
\<close>

definition useCallback :: "memo option \<Rightarrow> (string \<Rightarrow> key_result) \<Rightarrow> int list \<Rightarrow> memo" where
  "useCallback cell fn deps =
     (case cell of
        None \<Rightarrow> \<lparr> memo_fn = fn, memo_deps = deps \<rparr>
      | Some m \<Rightarrow> if memo_deps m = deps then m else \<lparr> memo_fn = fn, memo_deps = deps \<rparr>)"

subsection \<open>Rows\<close>

definition kSampleHeight :: int where
  "kSampleHeight = 88"

definition kSeparatorHeight :: int where
  "kSeparatorHeight = 24"

text \<open>
  What \<^verbatim>\<open>renderRow\<close> returns: a \<^verbatim>\<open>SampleRow\<close> or a \<^verbatim>\<open>SeparatorRow\<close> element with
  its props, or a string.
\<close>

record ('i, 't) sample_row_props =
  row_id :: nat
  row_index :: int
  row_sample :: "('i, 't) item_data"
  row_height :: int
  row_sampleDescriptor :: "('i, 't) samples_descriptor option"
  row_selected :: bool
  row_setSelected :: fn_ref
  row_selectedScore :: score_label
  row_showSample :: fn_ref

record ('i, 't) separator_row_props =
  sep_id :: string
  sep_title :: "('i, 't) item_data"
  sep_height :: int

datatype ('i, 't) row =
    SampleRowEl "('i, 't) sample_row_props"
  | SeparatorRowEl "('i, 't) separator_row_props"
  | RowText string

definition renderRow :: "('i, 't) props \<Rightarrow> ('i, 't) list_item \<Rightarrow> ('i, 't) row" where
  "renderRow p item =
     (if item_type item = ''sample'' then
        SampleRowEl
          \<lparr> row_id = item_number item,
            row_index = item_index item,
            row_sample = item_data item,
            row_height = kSampleHeight,
            row_sampleDescriptor = sampleDescriptor p,
            row_selected = (selectedIndex p = item_index item),
            row_setSelected = setSelectedIndex p,
            row_selectedScore = selectedScore p,
            row_showSample = showSample p \<rparr>
      else if item_type item = ''separator'' then
        SeparatorRowEl
          \<lparr> sep_id = ''sample-group'' @ show_nat (item_number item),
            sep_title = item_data item,
            sep_height = kSeparatorHeight \<rparr>
      else RowText [])"

text \<open>The separator row: its id, its height in pixels and the title it shows.\<close>

record ('i, 't) separator_el =
  separator_el_id :: string
  separator_height_px :: int
  separator_text :: "('i, 't) item_data"

definition SeparatorRow :: "('i, 't) separator_row_props \<Rightarrow> ('i, 't) separator_el" where
  "SeparatorRow ps =
     \<lparr> separator_el_id = sep_id ps,
       separator_height_px = sep_height ps,
       separator_text = sep_title ps \<rparr>"

text \<open>
  The sample row. The score cell holds a \<^verbatim>\<open>SampleError\<close> element with its message,
  or what \<^verbatim>\<open>sampleDescriptor?.selectedScore(sample).render()\<close> gives (nothing when the
  descriptor is absent). The answer cell holds a \<^verbatim>\<open>MarkdownDiv\<close> whose markdown is
  \<^verbatim>\<open>sampleDescriptor?.selectedScorerDescriptor(sample).answer()\<close>.
\<close>

datatype score_cell = SampleErrorEl string | ScoreMarkup "string option"

record sample_row_el =
  el_id :: string
  el_onclick :: "effect list"
  el_height_px :: int
  el_grid :: grid_styles
  el_gridTemplateRows_px :: int
  el_focus_ring :: bool
  cell_id :: sample_id
  cell_input :: string
  cell_target :: string
  cell_answer :: "string option"
  cell_limit :: "string option"
  cell_score :: score_cell

text \<open>
  \<^verbatim>\<open>inputString\<close> and \<^verbatim>\<open>arrayToString\<close> come from \<^verbatim>\<open>utils/Format.mjs\<close> and are
  parameters. The other arguments are the destructured props, in the order of the source.
\<close>

definition SampleRow ::
  "('i \<Rightarrow> string list) \<Rightarrow> ('t \<Rightarrow> string) \<Rightarrow> nat \<Rightarrow> int \<Rightarrow> ('i, 't) sample_summary \<Rightarrow>
   ('i, 't) samples_descriptor option \<Rightarrow> int \<Rightarrow> bool \<Rightarrow> fn_ref \<Rightarrow> sample_row_el" where
  "SampleRow inputString arrayToString ident index sample descr height selected showSample_fn =
     \<lparr> el_id = ''sample-'' @ show_nat ident,
       el_onclick = [Call showSample_fn [index]],
       el_height_px = height,
       el_grid = gridColumnStyles descr,
       el_gridTemplateRows_px = height - 28,
       el_focus_ring = selected,
       cell_id = sample_id sample,
       cell_input = join '' '' (inputString (sample_input sample)),
       cell_target = arrayToString (sample_target sample),
       cell_answer = map_option (\<lambda>d. selectedScorerDescriptor_answer d sample) descr,
       cell_limit = sample_limit sample,
       cell_score =
         (if truthy (sample_error sample)
          then SampleErrorEl (the (sample_error sample))
          else ScoreMarkup (map_option (\<lambda>d. selectedScore_render d sample) descr)) \<rparr>"

text \<open>
  Mounting the element \<^verbatim>\<open>renderRow\<close> returned for a sample entry, whose data is a
  summary: the props go to \<^verbatim>\<open>SampleRow\<close>.
\<close>

definition mount_sample_row ::
  "('i \<Rightarrow> string list) \<Rightarrow> ('t \<Rightarrow> string) \<Rightarrow> ('i, 't) sample_row_props \<Rightarrow>
   ('i, 't) sample_summary \<Rightarrow> sample_row_el" where
  "mount_sample_row inputString arrayToString ps sample =
     SampleRow inputString arrayToString (row_id ps) (row_index ps) sample
       (row_sampleDescriptor ps) (row_height ps) (row_selected ps) (row_showSample ps)"

subsection \<open>Counters and the banner\<close>

definition sampleCount :: "('i, 't) list_item list \<Rightarrow> nat" where
  "sampleCount its =
     foldl (\<lambda>prev current. if item_type current = ''sample'' then prev + 1 else prev) 0 its"

definition errorCount :: "('i, 't) list_item list \<Rightarrow> nat" where
  "errorCount its =
     foldl (\<lambda>previous item. if truthy (data_error (item_data item)) then previous + 1 else previous)
       0 its"

definition limitCount :: "('i, 't) list_item list \<Rightarrow> nat" where
  "limitCount its =
     foldl (\<lambda>previous item. if truthy (data_limit (item_data item)) then previous + 1 else previous)
       0 its"

text \<open>
  \<^verbatim>\<open>(count / sampleCount) * 100\<close> is a double that is only handed to
  \<^verbatim>\<open>formatNoDecimal\<close> of \<^verbatim>\<open>utils/Format.mjs\<close>. It is kept as the pair of its numerator
  and denominator, and \<^verbatim>\<open>formatNoDecimal\<close> is a parameter.
\<close>

datatype percentage = Percentage (numerator: nat) (denominator: nat)

definition percentError :: "('i, 't) list_item list \<Rightarrow> percentage" where
  "percentError its = Percentage (errorCount its) (sampleCount its)"

definition percentLimit :: "('i, 't) list_item list \<Rightarrow> percentage" where
  "percentLimit its = Percentage (limitCount its) (sampleCount its)"

definition warningMessage :: "(percentage \<Rightarrow> string) \<Rightarrow> ('i, 't) list_item list \<Rightarrow> string option" where
  "warningMessage formatNoDecimal its =
     (if errorCount its > 0 then
        Some (''INFO: '' @ show_nat (errorCount its) @ '' of '' @ show_nat (sampleCount its)
              @ '' samples ('' @ formatNoDecimal (percentError its)
              @ ''%) had errors and were not scored.'')
      else if limitCount its \<noteq> 0 then
        Some (''INFO: '' @ show_nat (limitCount its) @ '' of '' @ show_nat (sampleCount its)
              @ '' samples ('' @ formatNoDecimal (percentLimit its)
              @ ''%) completed due to exceeding a limit.'')
      else None)"

subsection \<open>The component\<close>

record message_band =
  band_message :: string
  band_hidden :: bool
  band_type :: string

record header_row =
  header_grid :: grid_styles
  header_labels :: "string list"

record footer_row =
  footer_text :: string

record ('i, 't) virtual_list =
  vl_ref :: nat
  vl_data :: "('i, 't) list_item list"
  vl_tabIndex :: string
  vl_renderRow :: "('i, 't) list_item \<Rightarrow> ('i, 't) row"
  vl_onkeydown :: "string \<Rightarrow> key_result"
  vl_style :: "string \<rightharpoonup> string"

datatype ('i, 't) child =
    TextChild string
  | MessageBandEl message_band
  | HeaderRowEl header_row
  | VirtualListEl "('i, 't) virtual_list"
  | FooterRowEl footer_row

datatype ('i, 't) element = EmptyPanelEl string | DivEl "('i, 't) child list"

definition warningRow :: "(percentage \<Rightarrow> string) \<Rightarrow> bool \<Rightarrow> ('i, 't) list_item list \<Rightarrow> ('i, 't) child" where
  "warningRow formatNoDecimal hid its =
     (if truthy (warningMessage formatNoDecimal its)
      then MessageBandEl
             \<lparr> band_message = the (warningMessage formatNoDecimal its),
               band_hidden = hid,
               band_type = ''info'' \<rparr>
      else TextChild [])"

definition headerRow :: "('i, 't) samples_descriptor option \<Rightarrow> header_row" where
  "headerRow descr =
     (let g = gridColumns descr
      in \<lparr> header_grid = gridColumnStyles descr,
           header_labels =
             [''Id'',
              if col_input g \<noteq> Zero then ''Input'' else [],
              if col_target g \<noteq> Zero then ''Target'' else [],
              if col_answer g \<noteq> Zero then ''Answer'' else [],
              if col_limit g \<noteq> Zero then ''Limit'' else [],
              ''Score''] \<rparr>)"

definition footerRow :: "('i, 't) list_item list \<Rightarrow> footer_row" where
  "footerRow its = \<lparr> footer_text = show_nat (sampleCount its) @ '' Samples'' \<rparr>"

text \<open>
  One render of \<^verbatim>\<open>SampleList\<close>: the element it returns and the hook state after the
  render (the memoised key handler). The effects of the render are \<open>run_effects\<close>.
\<close>

definition SampleList ::
  "(percentage \<Rightarrow> string) \<Rightarrow> ('i, 't) props \<Rightarrow> hook_state \<Rightarrow> ('i, 't) element \<times> hook_state" where
  "SampleList formatNoDecimal p st =
     (if length (items p) = 0 then (EmptyPanelEl ''No Samples'', st)
      else
        (let cell = useCallback (onkeydown_cell st)
                      (onkeydown (prevSample p) (nextSample p) (showSample p) (selectedIndex p))
                      [selectedIndex p];
             listStyle = (style p)(''flex'' \<mapsto> ''1'', ''overflowY'' \<mapsto> ''auto'', ''outline'' \<mapsto> ''none'')
         in (DivEl
               [warningRow formatNoDecimal (hidden st) (items p),
                HeaderRowEl (headerRow (sampleDescriptor p)),
                VirtualListEl
                  \<lparr> vl_ref = listRef p,
                    vl_data = items p,
                    vl_tabIndex = ''0'',
                    vl_renderRow = renderRow p,
                    vl_onkeydown = memo_fn cell,
                    vl_style = listStyle \<rparr>,
                FooterRowEl (footerRow (items p))],
             st\<lparr>onkeydown_cell := Some cell\<rparr>)))"

text \<open>What a returned element contains.\<close>

fun is_banner :: "('i, 't) child \<Rightarrow> bool" where
  "is_banner (MessageBandEl _) = True"
| "is_banner _ = False"

fun is_header :: "('i, 't) child \<Rightarrow> bool" where
  "is_header (HeaderRowEl _) = True"
| "is_header _ = False"

fun is_virtual_list :: "('i, 't) child \<Rightarrow> bool" where
  "is_virtual_list (VirtualListEl _) = True"
| "is_virtual_list _ = False"

fun is_footer :: "('i, 't) child \<Rightarrow> bool" where
  "is_footer (FooterRowEl _) = True"
| "is_footer _ = False"

fun children :: "('i, 't) element \<Rightarrow> ('i, 't) child list" where
  "children (EmptyPanelEl _) = []"
| "children (DivEl cs) = cs"

text \<open>
  The key handler among the children of an element: that of its virtual list. Without a
  virtual list no key is handled.
\<close>

fun handler_of :: "('i, 't) child list \<Rightarrow> string \<Rightarrow> key_result" where
  "handler_of [] = (\<lambda>key. \<lparr> effects = [], returned = None \<rparr>)"
| "handler_of (VirtualListEl vl # cs) = vl_onkeydown vl"
| "handler_of (c # cs) = handler_of cs"

text \<open>
  A full render: the component function, then its effects. \<open>listEl\<close> and \<open>items_id\<close>
  are the environment of the render (whether the list element is mounted, and the
  identity of the items array).
\<close>

definition render_cycle ::
  "(percentage \<Rightarrow> string) \<Rightarrow> hook_state \<Rightarrow> bool \<times> nat \<times> ('i, 't) props \<Rightarrow> hook_state" where
  "render_cycle formatNoDecimal st r =
     (case r of (listEl, items_id, p) \<Rightarrow>
        snd (run_effects listEl items_id p (snd (SampleList formatNoDecimal p st))))"

definition render_cycles ::
  "(percentage \<Rightarrow> string) \<Rightarrow> hook_state \<Rightarrow> (bool \<times> nat \<times> ('i, 't) props) list \<Rightarrow> hook_state" where
  "render_cycles formatNoDecimal st rs = foldl (render_cycle formatNoDecimal) st rs"

subsection \<open>Names used in the statements\<close>

text \<open>
  The four proportional columns, the normalized value the descriptor supplies for each
  and the track size computed for each; the ratio of two widths in \<^verbatim>\<open>fr\<close>; the test
  \<^verbatim>\<open>item.type === "sample"\<close>.
\<close>

datatype column = Input | Target | Answer | Limit

fun normalized_of :: "message_shape \<Rightarrow> column \<Rightarrow> rat" where
  "normalized_of m Input = s_input (normalized m)"
| "normalized_of m Target = s_target (normalized m)"
| "normalized_of m Answer = s_answer (normalized m)"
| "normalized_of m Limit = s_limit (normalized m)"

fun width_of :: "grid_columns \<Rightarrow> column \<Rightarrow> css_size" where
  "width_of g Input = col_input g"
| "width_of g Target = col_target g"
| "width_of g Answer = col_answer g"
| "width_of g Limit = col_limit g"

fun fr_ratio :: "css_size \<Rightarrow> css_size \<Rightarrow> rat option" where
  "fr_ratio (Fr (Num x)) (Fr (Num y)) = Some (x / y)"
| "fr_ratio _ _ = None"

definition is_sample :: "('i, 't) list_item \<Rightarrow> bool" where
  "is_sample item = (item_type item = ''sample'')"

subsection \<open>Example inputs\<close>

definition example_shape :: message_shape where
  "example_shape =
     \<lparr> raw = \<lparr> s_id = 3, s_input = 120, s_target = 40, s_answer = 40, s_limit = 0, s_score = 5 \<rparr>,
       normalized =
         \<lparr> s_id = 0, s_input = 3 / 5, s_target = 1 / 5, s_answer = 1 / 5, s_limit = 0, s_score = 0 \<rparr> \<rparr>"

definition example_descriptor :: "(string, string) samples_descriptor" where
  "example_descriptor =
     \<lparr> messageShape = example_shape,
       selectedScore_render = (\<lambda>s. ''C''),
       selectedScorerDescriptor_answer = (\<lambda>s. ''42'') \<rparr>"

text \<open>
  A descriptor with another message shape that has the normalized input and the raw id
  and score hints of the example: 60% input, 10% target, 30% answer.
\<close>

definition reshaped_descriptor :: "(string, string) samples_descriptor" where
  "reshaped_descriptor =
     \<lparr> messageShape =
         \<lparr> raw = \<lparr> s_id = 3, s_input = 180, s_target = 30, s_answer = 90, s_limit = 0, s_score = 5 \<rparr>,
           normalized =
             \<lparr> s_id = 0, s_input = 3 / 5, s_target = 1 / 10, s_answer = 3 / 10, s_limit = 0,
               s_score = 0 \<rparr> \<rparr>,
       selectedScore_render = (\<lambda>s. ''I''),
       selectedScorerDescriptor_answer = (\<lambda>s. ''7'') \<rparr>"

text \<open>A descriptor with a short input column: 5% input, 50% target, 45% answer.\<close>

definition narrow_descriptor :: "(string, string) samples_descriptor" where
  "narrow_descriptor =
     \<lparr> messageShape =
         \<lparr> raw = \<lparr> s_id = 3, s_input = 10, s_target = 100, s_answer = 90, s_limit = 0, s_score = 5 \<rparr>,
           normalized =
             \<lparr> s_id = 0, s_input = 1 / 20, s_target = 1 / 2, s_answer = 9 / 20, s_limit = 0,
               s_score = 0 \<rparr> \<rparr>,
       selectedScore_render = (\<lambda>s. ''C''),
       selectedScorerDescriptor_answer = (\<lambda>s. ''42'') \<rparr>"

definition sample_ok :: "(string, string) sample_summary" where
  "sample_ok =
     \<lparr> sample_id = IdNumber 1, sample_input = ''What is 6 x 7?'', sample_target = ''42'',
       sample_error = None, sample_limit = None \<rparr>"

definition sample_failed :: "(string, string) sample_summary" where
  "sample_failed =
     \<lparr> sample_id = IdNumber 2, sample_input = ''What is 7 x 7?'', sample_target = ''49'',
       sample_error = Some ''timeout'', sample_limit = None \<rparr>"

definition sample_limited :: "(string, string) sample_summary" where
  "sample_limited =
     \<lparr> sample_id = IdNumber 3, sample_input = ''What is 8 x 7?'', sample_target = ''56'',
       sample_error = None, sample_limit = Some ''token'' \<rparr>"

definition item_group :: "(string, string) list_item" where
  "item_group =
     \<lparr> item_type = ''separator'', item_number = 1, item_index = -1, item_data = Title ''Epoch 1'' \<rparr>"

definition item_ok :: "(string, string) list_item" where
  "item_ok =
     \<lparr> item_type = ''sample'', item_number = 1, item_index = 0, item_data = Summary sample_ok \<rparr>"

definition item_failed :: "(string, string) list_item" where
  "item_failed =
     \<lparr> item_type = ''sample'', item_number = 2, item_index = 1, item_data = Summary sample_failed \<rparr>"

definition item_limited :: "(string, string) list_item" where
  "item_limited =
     \<lparr> item_type = ''sample'', item_number = 3, item_index = 2, item_data = Summary sample_limited \<rparr>"

definition item_other :: "(string, string) list_item" where
  "item_other =
     \<lparr> item_type = ''note'', item_number = 4, item_index = 3, item_data = Title ''n'' \<rparr>"

definition example_props :: "(string, string) list_item list \<Rightarrow> int \<Rightarrow> (string, string) props" where
  "example_props its sel =
     \<lparr> listRef = 0, items = its, sampleDescriptor = Some example_descriptor,
       style = Map.empty, selectedIndex = sel, setSelectedIndex = 1,
       selectedScore = \<lparr> label_name = ''accuracy'', label_scorer = ''match'' \<rparr>,
       nextSample = 2, prevSample = 3, showSample = 4 \<rparr>"

text \<open>
  The props of a second render of the same two samples with the same selected index, for
  which the parent passes other functions as \<^verbatim>\<open>nextSample\<close>, \<^verbatim>\<open>prevSample\<close> and
  \<^verbatim>\<open>showSample\<close>.
\<close>

definition rerendered_props :: "(string, string) props" where
  "rerendered_props =
     (example_props [item_ok, item_failed] 0)\<lparr>nextSample := 12, prevSample := 13, showSample := 14\<rparr>"

definition example_format :: "percentage \<Rightarrow> string" where
  "example_format pc = show_nat (numerator pc * 100 div denominator pc)"

definition example_inputString :: "string \<Rightarrow> string list" where
  "example_inputString s = [s]"

section \<open>Properties\<close>

subsection \<open>The column layout\<close>

lemma width_of_present:
  "width_of (gridColumns (Some d)) c =
     frSize (if 0 < normalized_of (messageShape d) c
             then Num (max (15 / 100) (normalized_of (messageShape d) c)) else Num 0)"
  by (cases c) (simp_all add: gridColumns_def shape_num_def Let_def)

lemma col_id_present:
  "col_id (gridColumns (Some d)) = Rem (Num (max 2 (min 10 (s_id (raw (messageShape d))))))"
  by (simp add: gridColumns_def shape_num_def Let_def)

lemma col_score_present:
  "col_score (gridColumns (Some d)) = Rem (Num (max 3 (min 10 (s_score (raw (messageShape d))))))"
  by (simp add: gridColumns_def shape_num_def Let_def)

lemma gridTemplateColumns_order:
  "gridTemplateColumns (gridColumnStyles descr) =
     [col_id (gridColumns descr), width_of (gridColumns descr) Input,
      width_of (gridColumns descr) Target, width_of (gridColumns descr) Answer,
      width_of (gridColumns descr) Limit, col_score (gridColumns descr)]"
  by (simp add: gridColumnStyles_def Let_def)

text \<open>
  C2, as stated, fails: a positive normalized value below 0.15 is raised to 0.15 by
  \<^verbatim>\<open>Math.max(0.15, ...)\<close>. With 5% input and 50% target the supplied values are in
  the ratio 1 : 10, the widths \<^verbatim>\<open>0.15fr\<close> and \<^verbatim>\<open>0.5fr\<close> in the ratio 3 : 10.
\<close>

theorem gridColumns_proportional_counterexample:
  "0 < normalized_of (messageShape narrow_descriptor) Input \<and>
   0 < normalized_of (messageShape narrow_descriptor) Target \<and>
   normalized_of (messageShape narrow_descriptor) Input
     / normalized_of (messageShape narrow_descriptor) Target = 1 / 10 \<and>
   fr_ratio (width_of (gridColumns (Some narrow_descriptor)) Input)
            (width_of (gridColumns (Some narrow_descriptor)) Target) = Some (3 / 10)"
  using width_of_present [of narrow_descriptor Input] width_of_present [of narrow_descriptor Target]
  by (simp add: narrow_descriptor_def frSize_def)

text \<open>
  C2, amended: for any two of the input, target, answer and limit columns whose supplied
  normalized values are at least 0.15, the ratio of their \<^verbatim>\<open>fr\<close> widths equals the ratio
  of the supplied normalized values.
\<close>

theorem gridColumns_proportional_above_minimum:
  assumes "15 / 100 \<le> normalized_of (messageShape d) c1"
    and "15 / 100 \<le> normalized_of (messageShape d) c2"
  shows "fr_ratio (width_of (gridColumns (Some d)) c1) (width_of (gridColumns (Some d)) c2)
         = Some (normalized_of (messageShape d) c1 / normalized_of (messageShape d) c2)"
proof -
  have w: "width_of (gridColumns (Some d)) c = Fr (Num (normalized_of (messageShape d) c))"
    if "15 / 100 \<le> normalized_of (messageShape d) c" for c
    using that by (simp add: width_of_present frSize_def max_def)
  show ?thesis
    by (simp add: w [OF assms(1)] w [OF assms(2)])
qed

text \<open>The amended C2 at a descriptor with 60% input and 20% target: the ratio is 3.\<close>

theorem gridColumns_proportional_above_minimum_witness:
  "15 / 100 \<le> normalized_of (messageShape example_descriptor) Input \<and>
   15 / 100 \<le> normalized_of (messageShape example_descriptor) Target \<and>
   fr_ratio (width_of (gridColumns (Some example_descriptor)) Input)
            (width_of (gridColumns (Some example_descriptor)) Target) = Some 3"
proof -
  have h1: "15 / 100 \<le> normalized_of (messageShape example_descriptor) Input"
    by (simp add: example_descriptor_def example_shape_def)
  have h2: "15 / 100 \<le> normalized_of (messageShape example_descriptor) Target"
    by (simp add: example_descriptor_def example_shape_def)
  from gridColumns_proportional_above_minimum [OF h1 h2] h1 h2 show ?thesis
    by (simp add: example_descriptor_def example_shape_def)
qed

lemma gridColumns_run_result:
  "gridColumns_run descr = (gridColumns descr, descr)"
  by (simp add: gridColumns_run_def)

lemma gridColumnStyles_run_result:
  "gridColumnStyles_run descr = (gridColumnStyles descr, descr)"
  by (simp add: gridColumnStyles_run_def gridColumns_run_def gridColumnStyles_def Let_def)

lemma width_of_value:
  "width_of (gridColumns (Some d)) c =
     (if 0 < normalized_of (messageShape d) c
      then Fr (Num (max (15 / 100) (normalized_of (messageShape d) c))) else Zero)"
  by (simp add: width_of_present frSize_def max_def)

text \<open>
  C7: the layout reads the message shape of the descriptor and nothing else, and leaves
  the descriptor as it was. The width of each of the input, target, answer and limit
  columns is a function of that column's normalized value alone: \<^verbatim>\<open>"0"\<close> when the
  value is not positive, and otherwise the larger of 0.15 and the value, in \<^verbatim>\<open>fr\<close>.
  The id and score widths are functions of the raw id and score hints alone, clamped to
  2..10 and 3..10, in \<^verbatim>\<open>rem\<close>. The grid template lists the six widths in the order
  id, input, target, answer, limit, score. After a call of \<^verbatim>\<open>gridColumns\<close> or of
  \<^verbatim>\<open>gridColumnStyles\<close> the descriptor is the descriptor that was passed.
\<close>

theorem gridColumns_reads_shape_fields:
  "(normalized_of (messageShape d) c = normalized_of (messageShape d') c \<longrightarrow>
      width_of (gridColumns (Some d)) c = width_of (gridColumns (Some d')) c) \<and>
   (s_id (raw (messageShape d)) = s_id (raw (messageShape d')) \<longrightarrow>
      col_id (gridColumns (Some d)) = col_id (gridColumns (Some d'))) \<and>
   (s_score (raw (messageShape d)) = s_score (raw (messageShape d')) \<longrightarrow>
      col_score (gridColumns (Some d)) = col_score (gridColumns (Some d'))) \<and>
   width_of (gridColumns (Some d)) c =
     (if 0 < normalized_of (messageShape d) c
      then Fr (Num (max (15 / 100) (normalized_of (messageShape d) c))) else Zero) \<and>
   col_id (gridColumns (Some d)) = Rem (Num (max 2 (min 10 (s_id (raw (messageShape d)))))) \<and>
   col_score (gridColumns (Some d)) = Rem (Num (max 3 (min 10 (s_score (raw (messageShape d)))))) \<and>
   gridTemplateColumns (gridColumnStyles (Some d)) =
     [col_id (gridColumns (Some d)), width_of (gridColumns (Some d)) Input,
      width_of (gridColumns (Some d)) Target, width_of (gridColumns (Some d)) Answer,
      width_of (gridColumns (Some d)) Limit, col_score (gridColumns (Some d))] \<and>
   gridColumns_run (Some d) = (gridColumns (Some d), Some d) \<and>
   gridColumnStyles_run (Some d) = (gridColumnStyles (Some d), Some d)"
proof (intro conjI impI)
  assume "normalized_of (messageShape d) c = normalized_of (messageShape d') c"
  then show "width_of (gridColumns (Some d)) c = width_of (gridColumns (Some d')) c"
    by (simp only: width_of_present)
next
  assume "s_id (raw (messageShape d)) = s_id (raw (messageShape d'))"
  then show "col_id (gridColumns (Some d)) = col_id (gridColumns (Some d'))"
    by (simp only: col_id_present)
next
  assume "s_score (raw (messageShape d)) = s_score (raw (messageShape d'))"
  then show "col_score (gridColumns (Some d)) = col_score (gridColumns (Some d'))"
    by (simp only: col_score_present)
qed (rule width_of_value col_id_present col_score_present gridTemplateColumns_order
      gridColumns_run_result gridColumnStyles_run_result)+

text \<open>
  C7 at the example descriptor and a descriptor with another message shape that agrees on
  the normalized input and on the raw id and score: the same input, id and score widths,
  other target widths, the whole template of the example, and the example descriptor
  unchanged by the calls.
\<close>

theorem gridColumns_reads_shape_fields_witness:
  "messageShape example_descriptor \<noteq> messageShape reshaped_descriptor \<and>
   normalized_of (messageShape example_descriptor) Input
     = normalized_of (messageShape reshaped_descriptor) Input \<and>
   s_id (raw (messageShape example_descriptor)) = s_id (raw (messageShape reshaped_descriptor)) \<and>
   s_score (raw (messageShape example_descriptor)) = s_score (raw (messageShape reshaped_descriptor)) \<and>
   width_of (gridColumns (Some example_descriptor)) Input = Fr (Num (3 / 5)) \<and>
   width_of (gridColumns (Some reshaped_descriptor)) Input = Fr (Num (3 / 5)) \<and>
   width_of (gridColumns (Some example_descriptor)) Target = Fr (Num (1 / 5)) \<and>
   width_of (gridColumns (Some reshaped_descriptor)) Target = Fr (Num (3 / 20)) \<and>
   width_of (gridColumns (Some example_descriptor)) Limit = Zero \<and>
   col_id (gridColumns (Some example_descriptor)) = Rem (Num 3) \<and>
   col_id (gridColumns (Some reshaped_descriptor)) = Rem (Num 3) \<and>
   col_score (gridColumns (Some example_descriptor)) = Rem (Num 5) \<and>
   col_score (gridColumns (Some reshaped_descriptor)) = Rem (Num 5) \<and>
   gridTemplateColumns (gridColumnStyles (Some example_descriptor)) =
     [Rem (Num 3), Fr (Num (3 / 5)), Fr (Num (1 / 5)), Fr (Num (1 / 5)), Zero, Rem (Num 5)] \<and>
   snd (gridColumns_run (Some example_descriptor)) = Some example_descriptor \<and>
   snd (gridColumnStyles_run (Some example_descriptor)) = Some example_descriptor"
proof -
  let ?d = example_descriptor and ?e = reshaped_descriptor
  note I = gridColumns_reads_shape_fields [of ?d Input ?e]
  note T = gridColumns_reads_shape_fields [of ?d Target ?e]
  note A = gridColumns_reads_shape_fields [of ?d Answer ?e]
  note L = gridColumns_reads_shape_fields [of ?d Limit ?e]
  note T' = gridColumns_reads_shape_fields [of ?e Target ?d]
  have h0: "messageShape ?d \<noteq> messageShape ?e"
    by (simp add: example_descriptor_def example_shape_def reshaped_descriptor_def)
  have h1: "normalized_of (messageShape ?d) Input = normalized_of (messageShape ?e) Input"
    by (simp add: example_descriptor_def example_shape_def reshaped_descriptor_def)
  have h2: "s_id (raw (messageShape ?d)) = s_id (raw (messageShape ?e))"
    by (simp add: example_descriptor_def example_shape_def reshaped_descriptor_def)
  have h3: "s_score (raw (messageShape ?d)) = s_score (raw (messageShape ?e))"
    by (simp add: example_descriptor_def example_shape_def reshaped_descriptor_def)
  from I have "width_of (gridColumns (Some ?d)) Input =
     (if 0 < normalized_of (messageShape ?d) Input
      then Fr (Num (max (15 / 100) (normalized_of (messageShape ?d) Input))) else Zero)"
    by blast
  then have wi: "width_of (gridColumns (Some ?d)) Input = Fr (Num (3 / 5))"
    by (simp add: example_descriptor_def example_shape_def)
  from I h1 have "width_of (gridColumns (Some ?d)) Input = width_of (gridColumns (Some ?e)) Input"
    by blast
  with wi have wi': "width_of (gridColumns (Some ?e)) Input = Fr (Num (3 / 5))"
    by simp
  from T have "width_of (gridColumns (Some ?d)) Target =
     (if 0 < normalized_of (messageShape ?d) Target
      then Fr (Num (max (15 / 100) (normalized_of (messageShape ?d) Target))) else Zero)"
    by blast
  then have wt: "width_of (gridColumns (Some ?d)) Target = Fr (Num (1 / 5))"
    by (simp add: example_descriptor_def example_shape_def)
  from T' have "width_of (gridColumns (Some ?e)) Target =
     (if 0 < normalized_of (messageShape ?e) Target
      then Fr (Num (max (15 / 100) (normalized_of (messageShape ?e) Target))) else Zero)"
    by blast
  then have wt': "width_of (gridColumns (Some ?e)) Target = Fr (Num (3 / 20))"
    by (simp add: reshaped_descriptor_def)
  from A have "width_of (gridColumns (Some ?d)) Answer =
     (if 0 < normalized_of (messageShape ?d) Answer
      then Fr (Num (max (15 / 100) (normalized_of (messageShape ?d) Answer))) else Zero)"
    by blast
  then have wa: "width_of (gridColumns (Some ?d)) Answer = Fr (Num (1 / 5))"
    by (simp add: example_descriptor_def example_shape_def)
  from L have "width_of (gridColumns (Some ?d)) Limit =
     (if 0 < normalized_of (messageShape ?d) Limit
      then Fr (Num (max (15 / 100) (normalized_of (messageShape ?d) Limit))) else Zero)"
    by blast
  then have wl: "width_of (gridColumns (Some ?d)) Limit = Zero"
    by (simp add: example_descriptor_def example_shape_def)
  from I have "col_id (gridColumns (Some ?d)) = Rem (Num (max 2 (min 10 (s_id (raw (messageShape ?d))))))"
    by blast
  then have ci: "col_id (gridColumns (Some ?d)) = Rem (Num 3)"
    by (simp add: example_descriptor_def example_shape_def)
  from I h2 have "col_id (gridColumns (Some ?d)) = col_id (gridColumns (Some ?e))"
    by blast
  with ci have ci': "col_id (gridColumns (Some ?e)) = Rem (Num 3)"
    by simp
  from I have "col_score (gridColumns (Some ?d)) = Rem (Num (max 3 (min 10 (s_score (raw (messageShape ?d))))))"
    by blast
  then have cs: "col_score (gridColumns (Some ?d)) = Rem (Num 5)"
    by (simp add: example_descriptor_def example_shape_def)
  from I h3 have "col_score (gridColumns (Some ?d)) = col_score (gridColumns (Some ?e))"
    by blast
  with cs have cs': "col_score (gridColumns (Some ?e)) = Rem (Num 5)"
    by simp
  from I have "gridTemplateColumns (gridColumnStyles (Some ?d)) =
     [col_id (gridColumns (Some ?d)), width_of (gridColumns (Some ?d)) Input,
      width_of (gridColumns (Some ?d)) Target, width_of (gridColumns (Some ?d)) Answer,
      width_of (gridColumns (Some ?d)) Limit, col_score (gridColumns (Some ?d))]"
    by blast
  then have gt: "gridTemplateColumns (gridColumnStyles (Some ?d)) =
     [Rem (Num 3), Fr (Num (3 / 5)), Fr (Num (1 / 5)), Fr (Num (1 / 5)), Zero, Rem (Num 5)]"
    by (simp only: wi wt wa wl ci cs)
  from I have "gridColumns_run (Some ?d) = (gridColumns (Some ?d), Some ?d)"
    by blast
  then have r1: "snd (gridColumns_run (Some ?d)) = Some ?d"
    by simp
  from I have "gridColumnStyles_run (Some ?d) = (gridColumnStyles (Some ?d), Some ?d)"
    by blast
  then have r2: "snd (gridColumnStyles_run (Some ?d)) = Some ?d"
    by simp
  from h0 h1 h2 h3 wi wi' wt wt' wl ci ci' cs cs' gt r1 r2 show ?thesis
    by blast
qed

text \<open>
  C9 at an absent descriptor: \<^verbatim>\<open>Math.min(10, undefined)\<close> is \<^verbatim>\<open>NaN\<close>, so the id and
  the score widths are \<^verbatim>\<open>NaNrem\<close>, which is neither between 2 and 10 nor between 3 and
  10. The four proportional columns of the same call are \<^verbatim>\<open>"0"\<close>.
\<close>

theorem gridColumns_absent_descriptor:
  "col_id (gridColumns (None :: (string, string) samples_descriptor option)) = Rem NaN \<and>
   col_score (gridColumns (None :: (string, string) samples_descriptor option)) = Rem NaN \<and>
   col_input (gridColumns (None :: (string, string) samples_descriptor option)) = Zero"
  by (simp add: gridColumns_def shape_num_def Let_def frSize_def)

text \<open>
  With a descriptor present the bounds of C9 hold: each proportional width is
  \<^verbatim>\<open>"0"\<close> (exactly when the normalized value is not positive) or at least
  \<^verbatim>\<open>0.15fr\<close>, the id width is between 2 and 10 and the score width between 3 and 10.
  A header label is empty exactly when the width of its column is \<^verbatim>\<open>"0"\<close>, with or
  without a descriptor.
\<close>

lemma gridColumns_bounds_present:
  "(width_of (gridColumns (Some d)) c = Zero \<and> normalized_of (messageShape d) c \<le> 0 \<or>
    (\<exists>w. width_of (gridColumns (Some d)) c = Fr (Num w) \<and> 15 / 100 \<le> w
         \<and> 0 < normalized_of (messageShape d) c)) \<and>
   (\<exists>i. col_id (gridColumns (Some d)) = Rem (Num i) \<and> 2 \<le> i \<and> i \<le> 10) \<and>
   (\<exists>s. col_score (gridColumns (Some d)) = Rem (Num s) \<and> 3 \<le> s \<and> s \<le> 10)"
  by (cases c) (auto simp add: gridColumns_def shape_num_def Let_def frSize_def max_def)

lemma header_labels_empty_iff:
  "header_labels (headerRow descr) =
     [''Id'',
      if width_of (gridColumns descr) Input = Zero then [] else ''Input'',
      if width_of (gridColumns descr) Target = Zero then [] else ''Target'',
      if width_of (gridColumns descr) Answer = Zero then [] else ''Answer'',
      if width_of (gridColumns descr) Limit = Zero then [] else ''Limit'',
      ''Score'']"
  by (simp add: headerRow_def Let_def)

subsection \<open>The row mapping and the scroll effect\<close>

lemma forEach_push_append:
  "forEach_push xs k acc = acc @ forEach_push xs k []"
proof (induction xs arbitrary: k acc)
  case Nil
  show ?case by simp
next
  case (Cons x xs)
  show ?case
    using Cons.IH [of "Suc k" "acc @ [k]"] Cons.IH [of "Suc k" "[k]"] Cons.IH [of "Suc k" acc]
    by simp
qed

lemma length_forEach_push:
  "length (forEach_push xs k []) = length (filter is_sample xs)"
proof (induction xs arbitrary: k)
  case Nil
  show ?case by simp
next
  case (Cons x xs)
  show ?case
    using Cons.IH [of "Suc k"] forEach_push_append [of xs "Suc k" "[k]"]
    by (simp add: is_sample_def)
qed

lemma forEach_push_nth:
  "n < length (filter is_sample xs) \<Longrightarrow>
   \<exists>pos. forEach_push xs k [] ! n = k + pos \<and> pos < length xs \<and> is_sample (xs ! pos) \<and>
         length (filter is_sample (take pos xs)) = n"
proof (induction xs arbitrary: k n)
  case Nil
  then show ?case by simp
next
  case (Cons x xs)
  show ?case
  proof (cases "is_sample x")
    case True
    then have eq: "forEach_push (x # xs) k [] = k # forEach_push xs (Suc k) []"
      using forEach_push_append [of xs "Suc k" "[k]"] by (simp add: is_sample_def)
    show ?thesis
    proof (cases n)
      case 0
      with True eq show ?thesis
        by (intro exI [of _ 0]) simp
    next
      case (Suc m)
      with Cons.prems True have "m < length (filter is_sample xs)" by simp
      from Cons.IH [OF this, of "Suc k"] obtain pos where
        "forEach_push xs (Suc k) [] ! m = Suc k + pos" "pos < length xs" "is_sample (xs ! pos)"
        "length (filter is_sample (take pos xs)) = m"
        by blast
      with True eq Suc show ?thesis
        by (intro exI [of _ "Suc pos"]) simp
    qed
  next
    case False
    then have eq: "forEach_push (x # xs) k [] = forEach_push xs (Suc k) []"
      by (simp add: is_sample_def)
    from Cons.prems False have "n < length (filter is_sample xs)" by simp
    from Cons.IH [OF this, of "Suc k"] obtain pos where
      "forEach_push xs (Suc k) [] ! n = Suc k + pos" "pos < length xs" "is_sample (xs ! pos)"
      "length (filter is_sample (take pos xs)) = n"
      by blast
    with False eq show ?thesis
      by (intro exI [of _ "Suc pos"]) simp
  qed
qed

lemma itemRowMapping_nth:
  assumes "n < length (filter is_sample xs)"
  shows "itemRowMapping xs ! n < length xs \<and> is_sample (xs ! (itemRowMapping xs ! n)) \<and>
         length (filter is_sample (take (itemRowMapping xs ! n) xs)) = n \<and>
         n < length (itemRowMapping xs)"
  using forEach_push_nth [OF assms, of 0] assms
  by (auto simp add: itemRowMapping_def length_forEach_push)

lemma sample_position_unique:
  assumes "p < length xs" "is_sample (xs ! p)" "q < length xs" "is_sample (xs ! q)"
    and "length (filter is_sample (take p xs)) = length (filter is_sample (take q xs))"
  shows "p = q"
proof -
  have less: "length (filter is_sample (take a xs)) < length (filter is_sample (take b xs))"
    if "a < b" "b \<le> length xs" "is_sample (xs ! a)" for a b
  proof -
    from that have a: "a < length xs" and ab: "Suc a \<le> b" by simp_all
    from a have 1: "take (Suc a) xs = take a xs @ [xs ! a]"
      by (simp add: take_Suc_conv_app_nth)
    from ab have 3: "take (Suc a) (take b xs) = take (Suc a) xs"
      by (simp add: min_def)
    have "take b xs = take (Suc a) (take b xs) @ drop (Suc a) (take b xs)"
      by (simp only: append_take_drop_id)
    then have "take b xs = (take a xs @ [xs ! a]) @ drop (Suc a) (take b xs)"
      by (simp only: 3 1)
    then have "length (filter is_sample (take b xs))
        = length (filter is_sample ((take a xs @ [xs ! a]) @ drop (Suc a) (take b xs)))"
      by simp
    with that(3) show ?thesis by simp
  qed
  show ?thesis
  proof (rule ccontr)
    assume "p \<noteq> q"
    then consider "p < q" | "q < p" by linarith
    then show False
      using less [of p q] less [of q p] assms by cases auto
  qed
qed

text \<open>
  C1, as stated, fails for a selected index that no sample entry has: with one separator
  and one sample, and the selected index 1, \<^verbatim>\<open>itemRowMapping[1]\<close> is \<^verbatim>\<open>undefined\<close> and
  the component calls \<^verbatim>\<open>scrollToIndex(undefined, "up")\<close>, which names no position of
  the items list. On the same list with the selected index 0, but with no list element
  in \<^verbatim>\<open>listRef.current\<close>, it makes no call.
\<close>

theorem scroll_out_of_range_counterexample:
  "items (example_props [item_group, item_ok] 1) \<noteq> [] \<and>
   length (filter is_sample (items (example_props [item_group, item_ok] 1))) = 1 \<and>
   selectedIndex (example_props [item_group, item_ok] 1) = 1 \<and>
   fst (run_effects True 0 (example_props [item_group, item_ok] 1) initial_hooks)
     = Some (ScrollToIndex RUndefined ''up'') \<and>
   selectedIndex (example_props [item_group, item_ok] 0) = 0 \<and>
   fst (run_effects False 0 (example_props [item_group, item_ok] 0) initial_hooks) = None"
  by (simp add: run_effects_def scroll_effect_def Let_def deps_changed_def initial_hooks_def
      example_props_def itemRowMapping_def array_get_def item_group_def item_ok_def is_sample_def)

text \<open>
  C1, amended: for every non-empty items list, when the selected index has changed since
  the effect last ran (or the component has just mounted), the list element is mounted,
  and the selected index is at least 0 and less than the number of sample entries, the
  component calls \<^verbatim>\<open>scrollToIndex\<close> with the position in the items list of the
  \<open>selectedIndex\<close>-th sample entry, counting from 0 and only entries of type
  \<^verbatim>\<open>"sample"\<close>; the direction is \<^verbatim>\<open>"down"\<close> if that position is greater than the
  stored previous position (the initial \<^verbatim>\<open>null\<close> compares as 0) and \<^verbatim>\<open>"up"\<close>
  otherwise; the position is stored as the new previous position. By
  \<open>sample_position_unique\<close> the three properties of \<open>pos\<close> determine it.
\<close>

theorem scroll_to_selected_sample:
  assumes nonempty: "items p \<noteq> []"
    and mounted: "listEl"
    and lower: "0 \<le> selectedIndex p"
    and upper: "nat (selectedIndex p) < length (filter is_sample (items p))"
    and changed: "map_option fst (scroll_deps st) \<noteq> Some (selectedIndex p)"
  shows "\<exists>pos. pos < length (items p) \<and> is_sample (items p ! pos) \<and>
           length (filter is_sample (take pos (items p))) = nat (selectedIndex p) \<and>
           fst (run_effects listEl items_id p st) =
             Some (ScrollToIndex (RIndex pos)
                    (if ref_gt (RIndex pos) (prevSelectedIndexRef st) then ''down'' else ''up'')) \<and>
           prevSelectedIndexRef (snd (run_effects listEl items_id p st)) = RIndex pos"
proof -
  let ?pos = "itemRowMapping (items p) ! nat (selectedIndex p)"
  from itemRowMapping_nth [OF upper] have
    pos: "?pos < length (items p)" "is_sample (items p ! ?pos)"
         "length (filter is_sample (take ?pos (items p))) = nat (selectedIndex p)"
    and inside: "nat (selectedIndex p) < length (itemRowMapping (items p))"
    by simp_all
  from lower inside have get: "array_get (itemRowMapping (items p)) (selectedIndex p) = RIndex ?pos"
    by (simp add: array_get_def)
  from changed have run: "deps_changed (scroll_deps st) (selectedIndex p, listRef p, items_id)"
    by (auto simp add: deps_changed_def split: option.splits)
  from nonempty mounted run get have
    "fst (run_effects listEl items_id p st) =
       Some (ScrollToIndex (RIndex ?pos)
              (if ref_gt (RIndex ?pos) (prevSelectedIndexRef st) then ''down'' else ''up''))"
    "prevSelectedIndexRef (snd (run_effects listEl items_id p st)) = RIndex ?pos"
    by (simp_all add: run_effects_def scroll_effect_def Let_def)
  with pos show ?thesis by blast
qed

text \<open>
  The amended C1 on a separator followed by two samples, the second sample selected, at
  the first render: the call is \<^verbatim>\<open>scrollToIndex(2, "down")\<close>.
\<close>

theorem scroll_to_selected_sample_witness:
  "items (example_props [item_group, item_ok, item_failed] 1) \<noteq> [] \<and>
   0 \<le> selectedIndex (example_props [item_group, item_ok, item_failed] 1) \<and>
   nat (selectedIndex (example_props [item_group, item_ok, item_failed] 1))
     < length (filter is_sample (items (example_props [item_group, item_ok, item_failed] 1))) \<and>
   map_option fst (scroll_deps initial_hooks)
     \<noteq> Some (selectedIndex (example_props [item_group, item_ok, item_failed] 1)) \<and>
   fst (run_effects True 0 (example_props [item_group, item_ok, item_failed] 1) initial_hooks)
     = Some (ScrollToIndex (RIndex 2) ''down'') \<and>
   (\<exists>pos. pos < length (items (example_props [item_group, item_ok, item_failed] 1)) \<and>
      fst (run_effects True 0 (example_props [item_group, item_ok, item_failed] 1) initial_hooks)
        = Some (ScrollToIndex (RIndex pos)
                 (if ref_gt (RIndex pos) (prevSelectedIndexRef initial_hooks) then ''down'' else ''up'')))"
proof -
  let ?p = "example_props [item_group, item_ok, item_failed] 1"
  have h1: "items ?p \<noteq> []"
    by (simp add: example_props_def)
  have h2: "0 \<le> selectedIndex ?p"
    by (simp add: example_props_def)
  have h3: "nat (selectedIndex ?p) < length (filter is_sample (items ?p))"
    by (simp add: example_props_def is_sample_def item_group_def item_ok_def item_failed_def)
  have h4: "map_option fst (scroll_deps initial_hooks) \<noteq> Some (selectedIndex ?p)"
    by (simp add: initial_hooks_def)
  have h5: "True" ..
  have e: "fst (run_effects True 0 ?p initial_hooks) = Some (ScrollToIndex (RIndex 2) ''down'')"
    by (simp add: run_effects_def scroll_effect_def Let_def deps_changed_def initial_hooks_def
        example_props_def itemRowMapping_def array_get_def item_group_def item_ok_def
        item_failed_def)
  from scroll_to_selected_sample [OF h1 h5 h2 h3 h4, of 0] have
    "\<exists>pos. pos < length (items ?p) \<and>
       fst (run_effects True 0 ?p initial_hooks)
         = Some (ScrollToIndex (RIndex pos)
                  (if ref_gt (RIndex pos) (prevSelectedIndexRef initial_hooks) then ''down'' else ''up''))"
    by blast
  with h1 h2 h3 h4 e show ?thesis
    by blast
qed

subsection \<open>The component and its rows\<close>

lemma foldl_count:
  "foldl (\<lambda>acc x. if P x then acc + 1 else acc) (n :: nat) xs = n + length (filter P xs)"
  by (induction xs arbitrary: n) simp_all

lemma sampleCount_filter: "sampleCount its = length (filter is_sample its)"
proof -
  have "is_sample = (\<lambda>i :: ('a, 'b) list_item. item_type i = ''sample'')"
    by (rule ext) (simp add: is_sample_def)
  then show ?thesis
    using foldl_count [of "\<lambda>i. item_type i = ''sample''" 0 its] by (simp add: sampleCount_def)
qed

lemma errorCount_filter:
  "errorCount its = length (filter (\<lambda>i. truthy (data_error (item_data i))) its)"
  using foldl_count [of "\<lambda>i. truthy (data_error (item_data i))" 0 its]
  by (simp add: errorCount_def)

lemma limitCount_filter:
  "limitCount its = length (filter (\<lambda>i. truthy (data_limit (item_data i))) its)"
  using foldl_count [of "\<lambda>i. truthy (data_limit (item_data i))" 0 its]
  by (simp add: limitCount_def)

lemma children_SampleList:
  "items p \<noteq> [] \<Longrightarrow>
   children (fst (SampleList f p st)) =
     [warningRow f (hidden st) (items p),
      HeaderRowEl (headerRow (sampleDescriptor p)),
      VirtualListEl
        \<lparr> vl_ref = listRef p, vl_data = items p, vl_tabIndex = ''0'', vl_renderRow = renderRow p,
          vl_onkeydown =
            memo_fn (useCallback (onkeydown_cell st)
                       (onkeydown (prevSample p) (nextSample p) (showSample p) (selectedIndex p))
                       [selectedIndex p]),
          vl_style = (style p)(''flex'' \<mapsto> ''1'', ''overflowY'' \<mapsto> ''auto'', ''outline'' \<mapsto> ''none'') \<rparr>,
      FooterRowEl (footerRow (items p))]"
  by (simp add: SampleList_def Let_def)

lemma warningRow_cases:
  "warningRow f hid its =
     (if 0 < errorCount its then
        MessageBandEl
          \<lparr> band_message =
              ''INFO: '' @ show_nat (errorCount its) @ '' of '' @ show_nat (sampleCount its)
              @ '' samples ('' @ f (Percentage (errorCount its) (sampleCount its))
              @ ''%) had errors and were not scored.'',
            band_hidden = hid, band_type = ''info'' \<rparr>
      else if 0 < limitCount its then
        MessageBandEl
          \<lparr> band_message =
              ''INFO: '' @ show_nat (limitCount its) @ '' of '' @ show_nat (sampleCount its)
              @ '' samples ('' @ f (Percentage (limitCount its) (sampleCount its))
              @ ''%) completed due to exceeding a limit.'',
            band_hidden = hid, band_type = ''info'' \<rparr>
      else TextChild [])"
  by (simp add: warningRow_def warningMessage_def percentError_def percentLimit_def)

text \<open>
  C3: with no items \<^verbatim>\<open>SampleList\<close> returns the empty panel with the text
  \<^verbatim>\<open>No Samples\<close>, which holds no header, footer, banner or virtual list; with items it
  returns the list structure: the banner slot, the header row, the virtual list over the
  items and the footer row.
\<close>

theorem SampleList_empty_state:
  "(items p = [] \<longrightarrow>
      fst (SampleList f p st) = EmptyPanelEl ''No Samples'' \<and>
      \<not> (\<exists>c \<in> set (children (fst (SampleList f p st))).
            is_header c \<or> is_footer c \<or> is_banner c \<or> is_virtual_list c)) \<and>
   (items p \<noteq> [] \<longrightarrow>
      (\<exists>w vl. fst (SampleList f p st) =
                DivEl [w, HeaderRowEl (headerRow (sampleDescriptor p)), VirtualListEl vl,
                       FooterRowEl (footerRow (items p))] \<and>
              w = warningRow f (hidden st) (items p) \<and> vl_data vl = items p))"
  by (simp add: SampleList_def Let_def)

text \<open>C3 on an empty list and on a list of one sample.\<close>

theorem SampleList_empty_state_witness:
  "items (example_props [] 0) = [] \<and>
   fst (SampleList example_format (example_props [] 0) initial_hooks) = EmptyPanelEl ''No Samples'' \<and>
   items (example_props [item_ok] 0) \<noteq> [] \<and>
   (\<exists>w vl. fst (SampleList example_format (example_props [item_ok] 0) initial_hooks) =
             DivEl [w, HeaderRowEl (headerRow (sampleDescriptor (example_props [item_ok] 0))),
                    VirtualListEl vl, FooterRowEl (footerRow (items (example_props [item_ok] 0)))])"
proof -
  have h1: "items (example_props [] 0) = []"
    by (simp add: example_props_def)
  have h2: "items (example_props [item_ok] 0) \<noteq> []"
    by (simp add: example_props_def)
  from SampleList_empty_state [of "example_props [] 0" example_format initial_hooks] h1
  have a: "fst (SampleList example_format (example_props [] 0) initial_hooks) = EmptyPanelEl ''No Samples''"
    by blast
  from SampleList_empty_state [of "example_props [item_ok] 0" example_format initial_hooks] h2
  have b: "\<exists>w vl. fst (SampleList example_format (example_props [item_ok] 0) initial_hooks) =
             DivEl [w, HeaderRowEl (headerRow (sampleDescriptor (example_props [item_ok] 0))),
                    VirtualListEl vl, FooterRowEl (footerRow (items (example_props [item_ok] 0)))]"
    by blast
  from h1 h2 a b show ?thesis by blast
qed

text \<open>
  C4: the type of an item decides its row. A \<^verbatim>\<open>"sample"\<close> item gives a
  \<^verbatim>\<open>SampleRow\<close> of height 88 on the item's data, index and number; a
  \<^verbatim>\<open>"separator"\<close> item gives a \<^verbatim>\<open>SeparatorRow\<close> of height 24 whose title is the
  item's data; any other type gives the empty string. The virtual list receives the
  items list itself as its data and \<open>renderRow\<close> as its row renderer.
\<close>

theorem renderRow_by_type:
  "(item_type it = ''sample'' \<longrightarrow>
      (\<exists>ps. renderRow p it = SampleRowEl ps \<and> row_height ps = 88 \<and>
            row_sample ps = item_data it \<and> row_index ps = item_index it \<and>
            row_id ps = item_number it)) \<and>
   (item_type it = ''separator'' \<longrightarrow>
      (\<exists>ps. renderRow p it = SeparatorRowEl ps \<and> sep_height ps = 24 \<and>
            sep_title ps = item_data it \<and>
            separator_height_px (SeparatorRow ps) = 24 \<and>
            separator_text (SeparatorRow ps) = item_data it)) \<and>
   (item_type it \<noteq> ''sample'' \<and> item_type it \<noteq> ''separator'' \<longrightarrow> renderRow p it = RowText []) \<and>
   (items p \<noteq> [] \<longrightarrow>
      (\<exists>vl. filter is_virtual_list (children (fst (SampleList f p st))) = [VirtualListEl vl] \<and>
            vl_data vl = items p \<and> vl_renderRow vl = renderRow p))"
  by (simp add: renderRow_def kSampleHeight_def kSeparatorHeight_def SeparatorRow_def
      children_SampleList warningRow_cases)

text \<open>C4 on a sample, a separator and an item of another type.\<close>

theorem renderRow_by_type_witness:
  "item_type item_ok = ''sample'' \<and>
   (\<exists>ps. renderRow (example_props [item_group, item_ok] 0) item_ok = SampleRowEl ps \<and>
         row_height ps = 88 \<and> row_sample ps = item_data item_ok) \<and>
   item_type item_group = ''separator'' \<and>
   (\<exists>ps. renderRow (example_props [item_group, item_ok] 0) item_group = SeparatorRowEl ps \<and>
         sep_height ps = 24 \<and> sep_title ps = item_data item_group) \<and>
   item_type item_other \<noteq> ''sample'' \<and> item_type item_other \<noteq> ''separator'' \<and>
   renderRow (example_props [item_group, item_ok] 0) item_other = RowText [] \<and>
   items (example_props [item_group, item_ok] 0) \<noteq> [] \<and>
   (\<exists>vl. filter is_virtual_list
           (children (fst (SampleList example_format (example_props [item_group, item_ok] 0)
              initial_hooks))) = [VirtualListEl vl] \<and>
         vl_data vl = items (example_props [item_group, item_ok] 0))"
proof -
  let ?p = "example_props [item_group, item_ok] 0"
  have h1: "item_type item_ok = ''sample''" by (simp add: item_ok_def)
  have h2: "item_type item_group = ''separator''" by (simp add: item_group_def)
  have h3: "item_type item_other \<noteq> ''sample'' \<and> item_type item_other \<noteq> ''separator''"
    by (simp add: item_other_def)
  have h4: "items ?p \<noteq> []" by (simp add: example_props_def)
  from renderRow_by_type [of item_ok ?p example_format initial_hooks] h1
  have a: "\<exists>ps. renderRow ?p item_ok = SampleRowEl ps \<and>
         row_height ps = 88 \<and> row_sample ps = item_data item_ok"
    by blast
  from renderRow_by_type [of item_group ?p example_format initial_hooks] h2
  have b: "\<exists>ps. renderRow ?p item_group = SeparatorRowEl ps \<and>
         sep_height ps = 24 \<and> sep_title ps = item_data item_group"
    by blast
  from renderRow_by_type [of item_other ?p example_format initial_hooks] h3
  have c: "renderRow ?p item_other = RowText []"
    by blast
  from renderRow_by_type [of item_other ?p example_format initial_hooks] h4
  have d: "\<exists>vl. filter is_virtual_list
           (children (fst (SampleList example_format ?p initial_hooks))) = [VirtualListEl vl] \<and>
         vl_data vl = items ?p"
    by blast
  from h1 h2 h3 h4 a b c d show ?thesis by blast
qed

subsection \<open>The key handler\<close>

lemma handler_of_SampleList:
  "items p \<noteq> [] \<Longrightarrow>
   handler_of (children (fst (SampleList f p st))) =
     memo_fn (useCallback (onkeydown_cell st)
                (onkeydown (prevSample p) (nextSample p) (showSample p) (selectedIndex p))
                [selectedIndex p])"
  by (simp add: children_SampleList warningRow_cases)

lemma cell_after_SampleList:
  "onkeydown_cell (snd (SampleList f p st)) =
     (if items p = [] then onkeydown_cell st
      else Some (useCallback (onkeydown_cell st)
                   (onkeydown (prevSample p) (nextSample p) (showSample p) (selectedIndex p))
                   [selectedIndex p]))"
  by (simp add: SampleList_def Let_def)

lemma run_effects_keeps_handler:
  "onkeydown_cell (snd (run_effects listEl items_id p st)) = onkeydown_cell st"
  by (simp add: run_effects_def Let_def)

lemma cell_after_render_cycle:
  "onkeydown_cell (render_cycle f st (listEl, items_id, p)) =
     (if items p = [] then onkeydown_cell st
      else Some (useCallback (onkeydown_cell st)
                   (onkeydown (prevSample p) (nextSample p) (showSample p) (selectedIndex p))
                   [selectedIndex p]))"
  by (simp add: render_cycle_def run_effects_keeps_handler cell_after_SampleList)

lemma useCallback_captured:
  assumes "\<forall>m. cell = Some m \<longrightarrow> (\<exists>s. memo_fn m = onkeydown a b c s \<and> memo_deps m = [s])"
  shows "memo_fn (useCallback cell (onkeydown a b c sel) [sel]) = onkeydown a b c sel \<and>
         memo_deps (useCallback cell (onkeydown a b c sel) [sel]) = [sel]"
proof (cases cell)
  case None
  then show ?thesis by (simp add: useCallback_def)
next
  case (Some m)
  with assms obtain s where "memo_fn m = onkeydown a b c s" "memo_deps m = [s]" by blast
  with Some show ?thesis by (simp add: useCallback_def)
qed

lemma render_cycles_same_callbacks:
  assumes "\<forall>m. onkeydown_cell st = Some m \<longrightarrow> (\<exists>s. memo_fn m = onkeydown a b c s \<and> memo_deps m = [s])"
    and "\<forall>r \<in> set rs. prevSample (snd (snd r)) = a \<and> nextSample (snd (snd r)) = b \<and>
                         showSample (snd (snd r)) = c"
  shows "\<forall>m. onkeydown_cell (render_cycles f st rs) = Some m
           \<longrightarrow> (\<exists>s. memo_fn m = onkeydown a b c s \<and> memo_deps m = [s])"
  using assms
proof (induction rs arbitrary: st)
  case Nil
  then show ?case by (simp add: render_cycles_def)
next
  case (Cons r rs)
  obtain listEl items_id p where r: "r = (listEl, items_id, p)"
    by (cases r) auto
  from Cons.prems(2) r have cb: "prevSample p = a" "nextSample p = b" "showSample p = c"
    by simp_all
  have "\<forall>m. onkeydown_cell (render_cycle f st r) = Some m
           \<longrightarrow> (\<exists>s. memo_fn m = onkeydown a b c s \<and> memo_deps m = [s])"
    using Cons.prems(1) useCallback_captured [OF Cons.prems(1), of "selectedIndex p"]
    by (auto simp add: r cell_after_render_cycle cb)
  from Cons.IH [OF this] Cons.prems(2) show ?case
    by (simp add: render_cycles_def)
qed

lemma useCallback_selected_index:
  assumes "\<forall>m. cell = Some m \<longrightarrow> (\<exists>a b c s. memo_fn m = onkeydown a b c s \<and> memo_deps m = [s])"
  shows "\<exists>a b c. memo_fn (useCallback cell (onkeydown a0 b0 c0 sel) [sel]) = onkeydown a b c sel \<and>
           memo_deps (useCallback cell (onkeydown a0 b0 c0 sel) [sel]) = [sel]"
proof (cases cell)
  case None
  then show ?thesis by (auto simp add: useCallback_def)
next
  case (Some m)
  with assms obtain a b c s where "memo_fn m = onkeydown a b c s" "memo_deps m = [s]" by blast
  with Some show ?thesis by (auto simp add: useCallback_def)
qed

lemma render_cycles_selected_index:
  assumes "\<forall>m. onkeydown_cell st = Some m
             \<longrightarrow> (\<exists>a b c s. memo_fn m = onkeydown a b c s \<and> memo_deps m = [s])"
  shows "\<forall>m. onkeydown_cell (render_cycles f st rs) = Some m
           \<longrightarrow> (\<exists>a b c s. memo_fn m = onkeydown a b c s \<and> memo_deps m = [s])"
  using assms
proof (induction rs arbitrary: st)
  case Nil
  then show ?case by (simp add: render_cycles_def)
next
  case (Cons r rs)
  obtain listEl items_id p where r: "r = (listEl, items_id, p)"
    by (cases r) auto
  have "\<forall>m. onkeydown_cell (render_cycle f st r) = Some m
           \<longrightarrow> (\<exists>a b c s. memo_fn m = onkeydown a b c s \<and> memo_deps m = [s])"
    using Cons.prems
      useCallback_selected_index [OF Cons.prems,
        of "prevSample p" "nextSample p" "showSample p" "selectedIndex p"]
    by (auto simp add: r cell_after_render_cycle)
  from Cons.IH [OF this] show ?case
    by (simp add: render_cycles_def)
qed

text \<open>
  What holds of the key handler after any series of earlier renders: it is the closure
  of the selected index of the present render, over the three callbacks of some render.
  So \<^verbatim>\<open>Enter\<close> shows the currently selected index, each of the three keys is followed
  by \<^verbatim>\<open>preventDefault\<close> and \<^verbatim>\<open>stopPropagation\<close>, and any other key calls nothing.
\<close>

lemma onkeydown_selected_index_current:
  assumes "items p \<noteq> []"
  shows "\<exists>a b c. handler_of (children (fst (SampleList f p (render_cycles f initial_hooks history))))
                   = onkeydown a b c (selectedIndex p)"
proof -
  have "\<forall>m. onkeydown_cell initial_hooks = Some m
          \<longrightarrow> (\<exists>a b c s. memo_fn m = onkeydown a b c s \<and> memo_deps m = [s])"
    by (simp add: initial_hooks_def)
  from useCallback_selected_index [OF render_cycles_selected_index [OF this, of f history],
      of "prevSample p" "nextSample p" "showSample p" "selectedIndex p"]
  show ?thesis
    using assms by (auto simp add: handler_of_SampleList)
qed

lemma onkeydown_other:
  "key \<noteq> ''ArrowUp'' \<Longrightarrow> key \<noteq> ''ArrowDown'' \<Longrightarrow> key \<noteq> ''Enter'' \<Longrightarrow>
   onkeydown a b c sel key = \<lparr> effects = [], returned = None \<rparr>"
  by (simp add: onkeydown_def)

text \<open>
  When every earlier render passed the same three callbacks as the present one (and so at
  the first render), the handler calls the callbacks of the present props.
\<close>

lemma onkeydown_dispatch_same_callbacks:
  assumes "items p \<noteq> []"
    and "\<forall>r \<in> set history. prevSample (snd (snd r)) = prevSample p \<and>
            nextSample (snd (snd r)) = nextSample p \<and> showSample (snd (snd r)) = showSample p"
  shows "handler_of (children (fst (SampleList f p (render_cycles f initial_hooks history))))
           = onkeydown (prevSample p) (nextSample p) (showSample p) (selectedIndex p)"
proof -
  have "\<forall>m. onkeydown_cell initial_hooks = Some m \<longrightarrow>
          (\<exists>s. memo_fn m = onkeydown (prevSample p) (nextSample p) (showSample p) s \<and>
               memo_deps m = [s])"
    by (simp add: initial_hooks_def)
  from render_cycles_same_callbacks [OF this assms(2), of f]
  show ?thesis
    using assms(1) useCallback_captured by (simp add: handler_of_SampleList)
qed

text \<open>
  C5 after a re-render that keeps the selected index and passes other callbacks: the
  dependency list \<^verbatim>\<open>[selectedIndex]\<close> is unchanged, \<^verbatim>\<open>useCallback\<close> returns the
  closure of the first render, and \<^verbatim>\<open>ArrowUp\<close>, \<^verbatim>\<open>ArrowDown\<close> and \<^verbatim>\<open>Enter\<close> call
  the \<^verbatim>\<open>prevSample\<close>, \<^verbatim>\<open>nextSample\<close> and \<^verbatim>\<open>showSample\<close> of the first render (3, 2
  and 4), not those of the present props (13, 12 and 14).
\<close>

theorem onkeydown_stale_callbacks:
  "items rerendered_props \<noteq> [] \<and>
   selectedIndex rerendered_props = selectedIndex (example_props [item_ok, item_failed] 0) \<and>
   prevSample rerendered_props = 13 \<and> nextSample rerendered_props = 12 \<and>
   showSample rerendered_props = 14 \<and>
   prevSample (example_props [item_ok, item_failed] 0) = 3 \<and>
   nextSample (example_props [item_ok, item_failed] 0) = 2 \<and>
   showSample (example_props [item_ok, item_failed] 0) = 4 \<and>
   handler_of (children (fst (SampleList example_format rerendered_props
       (render_cycles example_format initial_hooks
          [(True, 0, example_props [item_ok, item_failed] 0)])))) ''ArrowUp''
     = \<lparr> effects = [Call 3 [], PreventDefault, StopPropagation], returned = Some False \<rparr> \<and>
   handler_of (children (fst (SampleList example_format rerendered_props
       (render_cycles example_format initial_hooks
          [(True, 0, example_props [item_ok, item_failed] 0)])))) ''ArrowDown''
     = \<lparr> effects = [Call 2 [], PreventDefault, StopPropagation], returned = Some False \<rparr> \<and>
   handler_of (children (fst (SampleList example_format rerendered_props
       (render_cycles example_format initial_hooks
          [(True, 0, example_props [item_ok, item_failed] 0)])))) ''Enter''
     = \<lparr> effects = [Call 4 [0], PreventDefault, StopPropagation], returned = Some False \<rparr>"
proof -
  let ?p = "example_props [item_ok, item_failed] 0"
  let ?st = "render_cycles example_format initial_hooks [(True, 0, ?p)]"
  have ne: "items rerendered_props \<noteq> []" "items ?p \<noteq> []"
    by (simp_all add: rerendered_props_def example_props_def)
  have cell: "onkeydown_cell ?st = Some \<lparr> memo_fn = onkeydown 3 2 4 0, memo_deps = [0] \<rparr>"
    using ne(2)
    by (simp add: render_cycles_def cell_after_render_cycle)
       (simp add: useCallback_def initial_hooks_def example_props_def)
  have h: "handler_of (children (fst (SampleList example_format rerendered_props ?st)))
             = onkeydown 3 2 4 0"
    by (simp add: handler_of_SampleList [OF ne(1)] cell useCallback_def)
       (simp add: rerendered_props_def example_props_def)
  show ?thesis
    unfolding h
    by (simp add: onkeydown_def rerendered_props_def example_props_def)
qed

subsection \<open>The sample row\<close>

text \<open>
  C6: the row of a sample entry shows the identifier of the summary, its input text
  (the strings of \<^verbatim>\<open>inputString\<close> joined by a space), its target text (what
  \<^verbatim>\<open>arrayToString\<close> gives) and its limit in their cells; the score cell holds the error
  element, with the error message, exactly when the error message is truthy, and the
  score rendered by the descriptor otherwise.
\<close>

theorem sample_row_cells:
  assumes "item_type it = ''sample''" and "item_data it = Summary s"
  shows "\<exists>ps. renderRow p it = SampleRowEl ps \<and> row_sample ps = Summary s \<and>
           cell_id (mount_sample_row inputString arrayToString ps s) = sample_id s \<and>
           cell_input (mount_sample_row inputString arrayToString ps s)
             = join '' '' (inputString (sample_input s)) \<and>
           cell_target (mount_sample_row inputString arrayToString ps s)
             = arrayToString (sample_target s) \<and>
           cell_limit (mount_sample_row inputString arrayToString ps s) = sample_limit s \<and>
           ((\<exists>m. cell_score (mount_sample_row inputString arrayToString ps s) = SampleErrorEl m)
              \<longleftrightarrow> truthy (sample_error s)) \<and>
           (truthy (sample_error s) \<longrightarrow>
              cell_score (mount_sample_row inputString arrayToString ps s)
                = SampleErrorEl (the (sample_error s))) \<and>
           (\<not> truthy (sample_error s) \<longrightarrow>
              cell_score (mount_sample_row inputString arrayToString ps s)
                = ScoreMarkup (map_option (\<lambda>d. selectedScore_render d s) (sampleDescriptor p)))"
  using assms by (simp add: renderRow_def mount_sample_row_def SampleRow_def)

text \<open>C6 on a sample that failed with the error \<^verbatim>\<open>timeout\<close>.\<close>

theorem sample_row_cells_witness:
  "item_type item_failed = ''sample'' \<and> item_data item_failed = Summary sample_failed \<and>
   truthy (sample_error sample_failed) \<and>
   (\<exists>ps. renderRow (example_props [item_failed] 0) item_failed = SampleRowEl ps \<and>
      cell_id (mount_sample_row example_inputString id ps sample_failed) = IdNumber 2 \<and>
      cell_input (mount_sample_row example_inputString id ps sample_failed) = ''What is 7 x 7?'' \<and>
      cell_target (mount_sample_row example_inputString id ps sample_failed) = ''49'' \<and>
      cell_limit (mount_sample_row example_inputString id ps sample_failed) = None \<and>
      cell_score (mount_sample_row example_inputString id ps sample_failed) = SampleErrorEl ''timeout'')"
proof -
  have h1: "item_type item_failed = ''sample''" by (simp add: item_failed_def)
  have h2: "item_data item_failed = Summary sample_failed" by (simp add: item_failed_def)
  have h3: "truthy (sample_error sample_failed)" by (simp add: sample_failed_def)
  from sample_row_cells [OF h1 h2, of "example_props [item_failed] 0" example_inputString id] h3
  show ?thesis
    using h1 h2 by (auto simp add: sample_failed_def example_inputString_def)
qed

subsection \<open>The banner and the sample count\<close>

lemma banner_of_warningRow:
  "filter is_banner (children (fst (SampleList f p st))) =
     (if items p = [] then [] else filter is_banner [warningRow f (hidden st) (items p)])"
  by (cases "items p = []") (simp_all add: children_SampleList, simp add: SampleList_def)

text \<open>
  C8: a non-empty list shows at most one banner, and errors come first. The error count
  is the number of items whose data has a truthy \<^verbatim>\<open>error\<close>, the limit count the number
  of items whose data has a truthy \<^verbatim>\<open>limit\<close>. With a positive error count the banner
  reports the error count out of the sample count as errors that were not scored;
  otherwise, with a positive limit count, it reports the limit count out of the sample
  count as completed due to exceeding a limit; otherwise there is no banner and the slot
  holds the empty string.
\<close>

theorem warning_banner:
  assumes "items p \<noteq> []"
  shows "errorCount (items p) = length (filter (\<lambda>i. truthy (data_error (item_data i))) (items p)) \<and>
         limitCount (items p) = length (filter (\<lambda>i. truthy (data_limit (item_data i))) (items p)) \<and>
         length (filter is_banner (children (fst (SampleList f p st)))) \<le> 1 \<and>
         (0 < errorCount (items p) \<longrightarrow>
            filter is_banner (children (fst (SampleList f p st))) =
              [MessageBandEl
                 \<lparr> band_message =
                     ''INFO: '' @ show_nat (errorCount (items p)) @ '' of ''
                     @ show_nat (sampleCount (items p)) @ '' samples (''
                     @ f (Percentage (errorCount (items p)) (sampleCount (items p)))
                     @ ''%) had errors and were not scored.'',
                   band_hidden = hidden st, band_type = ''info'' \<rparr>]) \<and>
         (errorCount (items p) = 0 \<and> 0 < limitCount (items p) \<longrightarrow>
            filter is_banner (children (fst (SampleList f p st))) =
              [MessageBandEl
                 \<lparr> band_message =
                     ''INFO: '' @ show_nat (limitCount (items p)) @ '' of ''
                     @ show_nat (sampleCount (items p)) @ '' samples (''
                     @ f (Percentage (limitCount (items p)) (sampleCount (items p)))
                     @ ''%) completed due to exceeding a limit.'',
                   band_hidden = hidden st, band_type = ''info'' \<rparr>]) \<and>
         (errorCount (items p) = 0 \<and> limitCount (items p) = 0 \<longrightarrow>
            filter is_banner (children (fst (SampleList f p st))) = [] \<and>
            hd (children (fst (SampleList f p st))) = TextChild [])"
proof -
  have c: "filter is_banner (children (fst (SampleList f p st)))
             = filter is_banner [warningRow f (hidden st) (items p)]"
    using assms by (simp add: banner_of_warningRow)
  have h: "hd (children (fst (SampleList f p st))) = warningRow f (hidden st) (items p)"
    using assms by (simp add: children_SampleList)
  show ?thesis
    unfolding c h
    by (simp add: warningRow_cases errorCount_filter [symmetric] limitCount_filter [symmetric])
qed

text \<open>
  C8 on a separator and three samples of which one failed and one hit a limit: the
  banner is the error banner, 1 of 3.
\<close>

theorem warning_banner_witness:
  "items (example_props [item_group, item_ok, item_failed, item_limited] 0) \<noteq> [] \<and>
   0 < errorCount (items (example_props [item_group, item_ok, item_failed, item_limited] 0)) \<and>
   filter is_banner
     (children (fst (SampleList example_format
        (example_props [item_group, item_ok, item_failed, item_limited] 0) initial_hooks))) =
     [MessageBandEl
        \<lparr> band_message = ''INFO: 1 of 3 samples (33%) had errors and were not scored.'',
          band_hidden = False, band_type = ''info'' \<rparr>]"
proof -
  let ?p = "example_props [item_group, item_ok, item_failed, item_limited] 0"
  have h: "items ?p \<noteq> []" by (simp add: example_props_def)
  have e: "errorCount (items ?p) = 1"
    by (simp add: errorCount_def example_props_def item_group_def item_ok_def item_failed_def
        item_limited_def sample_ok_def sample_failed_def sample_limited_def)
  have n: "sampleCount (items ?p) = 3"
    by (simp add: sampleCount_def example_props_def item_group_def item_ok_def item_failed_def
        item_limited_def)
  have d: "show_nat (Suc 0) = ''1''" "show_nat 3 = ''3''" "show_nat 33 = ''33''"
    by (simp_all add: show_nat.simps digit_char_def)
  from warning_banner [OF h, of example_format initial_hooks] e
  have "filter is_banner (children (fst (SampleList example_format ?p initial_hooks))) =
      [MessageBandEl
         \<lparr> band_message =
             ''INFO: '' @ show_nat (errorCount (items ?p)) @ '' of ''
             @ show_nat (sampleCount (items ?p)) @ '' samples (''
             @ example_format (Percentage (errorCount (items ?p)) (sampleCount (items ?p)))
             @ ''%) had errors and were not scored.'',
           band_hidden = hidden initial_hooks, band_type = ''info'' \<rparr>]"
    by simp
  then show ?thesis
    using h by (simp add: e n d example_format_def initial_hooks_def)
qed

text \<open>
  C10: the sample count is the number of items of type \<^verbatim>\<open>"sample"\<close>; the footer shows
  it, followed by \<^verbatim>\<open>Samples\<close>, and it is the denominator of the percentage in the
  error banner and in the limit banner.
\<close>

theorem sample_count_shown:
  "sampleCount its = length (filter is_sample its) \<and>
   footer_text (footerRow its) = show_nat (length (filter is_sample its)) @ '' Samples'' \<and>
   denominator (percentError its) = length (filter is_sample its) \<and>
   denominator (percentLimit its) = length (filter is_sample its) \<and>
   (0 < errorCount its \<longrightarrow>
      warningMessage f its =
        Some (''INFO: '' @ show_nat (errorCount its) @ '' of ''
              @ show_nat (length (filter is_sample its)) @ '' samples (''
              @ f (Percentage (errorCount its) (length (filter is_sample its)))
              @ ''%) had errors and were not scored.'')) \<and>
   (errorCount its = 0 \<and> 0 < limitCount its \<longrightarrow>
      warningMessage f its =
        Some (''INFO: '' @ show_nat (limitCount its) @ '' of ''
              @ show_nat (length (filter is_sample its)) @ '' samples (''
              @ f (Percentage (limitCount its) (length (filter is_sample its)))
              @ ''%) completed due to exceeding a limit.'')) \<and>
   (items p \<noteq> [] \<longrightarrow>
      filter is_footer (children (fst (SampleList f p st))) = [FooterRowEl (footerRow (items p))])"
  by (simp add: sampleCount_filter [symmetric] footerRow_def percentError_def percentLimit_def
      warningMessage_def children_SampleList warningRow_cases)

text \<open>C10 on the same list: three samples in the footer and in the banner.\<close>

theorem sample_count_shown_witness:
  "0 < errorCount [item_group, item_ok, item_failed, item_limited] \<and>
   sampleCount [item_group, item_ok, item_failed, item_limited] = 3 \<and>
   footer_text (footerRow [item_group, item_ok, item_failed, item_limited]) = ''3 Samples'' \<and>
   warningMessage example_format [item_group, item_ok, item_failed, item_limited] =
     Some ''INFO: 1 of 3 samples (33%) had errors and were not scored.'' \<and>
   items (example_props [item_group, item_ok, item_failed, item_limited] 0) \<noteq> [] \<and>
   filter is_footer
     (children (fst (SampleList example_format
        (example_props [item_group, item_ok, item_failed, item_limited] 0) initial_hooks))) =
     [FooterRowEl (footerRow (items (example_props [item_group, item_ok, item_failed, item_limited] 0)))]"
proof -
  let ?its = "[item_group, item_ok, item_failed, item_limited]"
  let ?p = "example_props ?its 0"
  note T = sample_count_shown [of ?its example_format ?p initial_hooks]
  have h: "items ?p \<noteq> []" by (simp add: example_props_def)
  have e: "errorCount ?its = 1"
    by (simp add: errorCount_def item_group_def item_ok_def item_failed_def
        item_limited_def sample_ok_def sample_failed_def sample_limited_def)
  have n: "length (filter is_sample ?its) = 3"
    by (simp add: is_sample_def item_group_def item_ok_def item_failed_def item_limited_def)
  have d: "show_nat (Suc 0) = ''1''" "show_nat 3 = ''3''" "show_nat 33 = ''33''"
    by (simp_all add: show_nat.simps digit_char_def)
  from T have "sampleCount ?its = length (filter is_sample ?its)" by blast
  then have a: "sampleCount ?its = 3" unfolding n .
  from T have "footer_text (footerRow ?its) = show_nat (length (filter is_sample ?its)) @ '' Samples''"
    by blast
  then have b: "footer_text (footerRow ?its) = ''3 Samples''"
    unfolding n by (simp add: d)
  from T e have "warningMessage example_format ?its =
        Some (''INFO: '' @ show_nat (errorCount ?its) @ '' of ''
              @ show_nat (length (filter is_sample ?its)) @ '' samples (''
              @ example_format (Percentage (errorCount ?its) (length (filter is_sample ?its)))
              @ ''%) had errors and were not scored.'')"
    by simp
  then have c: "warningMessage example_format ?its =
     Some ''INFO: 1 of 3 samples (33%) had errors and were not scored.''"
    unfolding e n by (simp add: d example_format_def)
  from T h have f: "filter is_footer (children (fst (SampleList example_format ?p initial_hooks)))
      = [FooterRowEl (footerRow (items ?p))]"
    by blast
  from e have e': "0 < errorCount ?its" by simp
  from a b c f h e' show ?thesis by blast
qed

end
